theory Spec2Isabelle
  imports Main "HOL-Library.Product_Lexorder"
begin

section \<open>Trust scoring of a Hathor token: \<open>DataExtraction/fetch_hathor_nft.py\<close>\<close>

text \<open>
  The function \<open>fetch_hathor_nft(uid)\<close> first collects a raw token record over the network
  (lines 9 to 58) and then derives the trust report from it (lines 60 to 116). The embedding
  starts after line 58: the values of the local variables \<open>uid\<close>, \<open>name\<close>, \<open>symbol\<close>,
  \<open>totalSupply\<close>, \<open>canMint\<close>, \<open>canMelt\<close>, \<open>config_str\<close>, \<open>tx_hashes\<close> and \<open>tx_dates\<close> at that
  point are the input, and every call of \<open>datetime.today()\<close> is a read of an explicit clock.

  Python values are modelled as follows.
  \<^item> \<open>int\<close> is \<open>int\<close>; \<open>bool\<close> is \<open>bool\<close>; \<open>str | None\<close> is \<open>string option\<close>.
  \<^item> \<open>str\<close> is \<open>string\<close>, one \<open>char\<close> for one code point below 256.
  \<^item> A \<open>datetime\<close> is a record of its seven integer fields.
  \<^item> A raised exception is the left injection of a sum, \<open>Inl e\<close>.
  \<^item> The dictionaries of the result are records. A field is named after its key, with a
    prefix for the dictionary (\<open>nft_\<close>, \<open>tsd_\<close>, \<open>f_\<close>, \<open>h_\<close>, \<open>t_\<close>), because the
    definitions below carry the names of the local variables.
\<close>

subsection \<open>Python library values\<close>

datatype py_error = AttributeError | IndexError | ValueError

record datetime =
  year :: int
  month :: int
  day :: int
  hour :: int
  minute :: int
  second :: int
  microsecond :: int

text \<open>\<open>calendar.isleap\<close> and the day count of \<open>calendar.monthrange(year, month)[1]\<close>, which
  raises \<open>IllegalMonthError\<close> (a \<open>ValueError\<close>) for a month outside 1..12.\<close>

definition isleap :: "int \<Rightarrow> bool" where
  "isleap y = (y mod 4 = 0 \<and> (y mod 100 \<noteq> 0 \<or> y mod 400 = 0))"

definition mdays :: "int list" where
  "mdays = [31, 28, 31, 30, 31, 30, 31, 31, 30, 31, 30, 31]"

definition monthrange_days :: "int \<Rightarrow> int \<Rightarrow> py_error + int" where
  "monthrange_days y m =
     (if 1 \<le> m \<and> m \<le> 12
      then Inr (mdays ! nat (m - 1) + (if m = 2 \<and> isleap y then 1 else 0))
      else Inl ValueError)"

text \<open>The class invariant of \<open>datetime\<close>: every object of the class satisfies it
  (\<open>MINYEAR = 1\<close>, \<open>MAXYEAR = 9999\<close>).\<close>

definition valid_datetime :: "datetime \<Rightarrow> bool" where
  "valid_datetime d =
     (1 \<le> year d \<and> year d \<le> 9999 \<and> 1 \<le> month d \<and> month d \<le> 12 \<and>
      (case monthrange_days (year d) (month d) of
         Inl e \<Rightarrow> False
       | Inr n \<Rightarrow> 1 \<le> day d \<and> day d \<le> n) \<and>
      0 \<le> hour d \<and> hour d < 24 \<and> 0 \<le> minute d \<and> minute d < 60 \<and>
      0 \<le> second d \<and> second d < 60 \<and> 0 \<le> microsecond d \<and> microsecond d < 1000000)"

text \<open>\<open>datetime.replace(year=y, month=m, day=d)\<close>: the constructor checks the new fields
  and raises \<open>ValueError\<close> when one is out of range.\<close>

definition replace_ymd :: "datetime \<Rightarrow> int \<Rightarrow> int \<Rightarrow> int \<Rightarrow> py_error + datetime" where
  "replace_ymd other y m d =
     (if 1 \<le> y \<and> y \<le> 9999
      then (case monthrange_days y m of
              Inl e \<Rightarrow> Inl e
            | Inr n \<Rightarrow>
                if 1 \<le> d \<and> d \<le> n
                then Inr (other\<lparr>year := y, month := m, day := d\<rparr>)
                else Inl ValueError)
      else Inl ValueError)"

text \<open>Naive \<open>datetime\<close> objects compare as the tuples of their fields, lexicographically.\<close>

definition dt_key :: "datetime \<Rightarrow> int \<times> int \<times> int \<times> int \<times> int \<times> int \<times> int" where
  "dt_key d = (year d, month d, day d, hour d, minute d, second d, microsecond d)"

definition dt_lt :: "datetime \<Rightarrow> datetime \<Rightarrow> bool" where
  "dt_lt a b = (dt_key a < dt_key b)"

text \<open>The builtin \<open>min\<close> on a non-empty sequence keeps the first item and replaces it by a
  later one only when that one is strictly smaller.\<close>

fun py_min_from :: "datetime \<Rightarrow> datetime list \<Rightarrow> datetime" where
  "py_min_from m [] = m"
| "py_min_from m (d # ds) = py_min_from (if dt_lt d m then d else m) ds"

text \<open>\<open>strftime\<close> hands the directives to the C library. With glibc, \<open>%Y\<close> is the year in
  decimal without padding (year 999 gives \<open>999\<close>, year 5 gives \<open>5\<close>), and \<open>%m\<close> and \<open>%d\<close> are
  two digits, zero-padded.\<close>

definition digit_char :: "int \<Rightarrow> char" where
  "digit_char n = ''0123456789'' ! nat (n mod 10)"

fun zpad :: "nat \<Rightarrow> int \<Rightarrow> string" where
  "zpad 0 n = []"
| "zpad (Suc w) n = zpad w (n div 10) @ [digit_char n]"

fun decimal :: "nat \<Rightarrow> string" where
  "decimal n = (if n < 10 then [digit_char (int n)] else decimal (n div 10) @ [digit_char (int n)])"

declare decimal.simps [simp del]

definition strftime_Y :: "int \<Rightarrow> string" where
  "strftime_Y y = decimal (nat y)"

definition strftime_Ym :: "datetime \<Rightarrow> string" where
  "strftime_Ym d = strftime_Y (year d) @ ''-'' @ zpad 2 (month d)"

definition strftime_Ymd :: "datetime \<Rightarrow> string" where
  "strftime_Ymd d = strftime_Y (year d) @ ''-'' @ zpad 2 (month d) @ ''-'' @ zpad 2 (day d)"

text \<open>\<open>dateutil.relativedelta\<close>, restricted to the two fields that \<open>relativedelta(months=i)\<close>
  can set. The constructor normalises a month count beyond 11 into years (\<open>_fix\<close>); adding
  the delta to a \<open>datetime\<close> carries the month into the year, clips the day to the length of
  the target month and builds the result with \<open>replace\<close>.\<close>

record relativedelta =
  rd_years :: int
  rd_months :: int

definition sign :: "int \<Rightarrow> int" where
  "sign x = (if x < 0 then - 1 else 1)"

definition relativedelta_months :: "int \<Rightarrow> relativedelta" where
  "relativedelta_months i =
     (if \<bar>i\<bar> > 11
      then (let s = sign i; dv = (i * s) div 12; md = (i * s) mod 12
            in \<lparr>rd_years = dv * s, rd_months = md * s\<rparr>)
      else \<lparr>rd_years = 0, rd_months = i\<rparr>)"

definition add_relativedelta :: "datetime \<Rightarrow> relativedelta \<Rightarrow> py_error + datetime" where
  "add_relativedelta other rd =
     (let y0 = year other + rd_years rd;
          m0 = month other;
          (y, m) = (if rd_months rd \<noteq> 0
                    then (let m1 = m0 + rd_months rd
                          in if m1 > 12 then (y0 + 1, m1 - 12)
                             else if m1 < 1 then (y0 - 1, m1 + 12)
                             else (y0, m1))
                    else (y0, m0))
      in case monthrange_days y m of
           Inl e \<Rightarrow> Inl e
         | Inr n \<Rightarrow> replace_ymd other y m (min n (day other)))"

text \<open>\<open>str.strip()\<close> removes the white space at both ends; below code point 256 the white
  space of \<open>str\<close> is 9 to 13, 28 to 32, 133 and 160. \<open>str.split(sep)\<close> with a separator of
  one character cuts at every occurrence and always returns at least one piece.\<close>

definition isspace :: "char \<Rightarrow> bool" where
  "isspace c = ((of_char c :: nat) \<in> {9, 10, 11, 12, 13, 28, 29, 30, 31, 32, 133, 160})"

definition strip :: "string \<Rightarrow> string" where
  "strip s = rev (dropWhile isspace (rev (dropWhile isspace s)))"

fun split_chr :: "char \<Rightarrow> string \<Rightarrow> string list" where
  "split_chr c [] = [[]]"
| "split_chr c (x # xs) =
     (if x = c then [] # split_chr c xs
      else (case split_chr c xs of
              [] \<Rightarrow> [[x]]
            | p # ps \<Rightarrow> (x # p) # ps))"

text \<open>The slices \<open>s[:j]\<close> and \<open>s[i:]\<close>: a negative bound counts from the end, and a bound
  beyond either end is clipped to it, so a slice never raises.\<close>

definition slice_bound :: "'a list \<Rightarrow> int \<Rightarrow> nat" where
  "slice_bound xs i =
     (let n = int (length xs)
      in nat (if i < 0 then max (n + i) 0 else min i n))"

definition slice_to :: "'a list \<Rightarrow> int \<Rightarrow> 'a list" where
  "slice_to xs j = take (slice_bound xs j) xs"

definition slice_from :: "'a list \<Rightarrow> int \<Rightarrow> 'a list" where
  "slice_from xs i = drop (slice_bound xs i) xs"

text \<open>\<open>range(n)\<close> and the truth value of an optional string (\<open>None\<close> and \<open>""\<close> are false).\<close>

definition py_range :: "int \<Rightarrow> int list" where
  "py_range n = map int [0..<nat n]"

fun truthy :: "string option \<Rightarrow> bool" where
  "truthy None = False"
| "truthy (Some s) = (s \<noteq> [])"

text \<open>The clock: \<open>clk k\<close> is what the \<open>k\<close>-th call of \<open>datetime.today()\<close> returns, and the
  number of calls made so far is threaded through the computation.\<close>

type_synonym clock = "nat \<Rightarrow> datetime"

definition today :: "clock \<Rightarrow> nat \<Rightarrow> datetime \<times> nat" where
  "today clk k = (clk k, Suc k)"

definition fixed_clock :: "datetime \<Rightarrow> clock" where
  "fixed_clock t = (\<lambda>k. t)"

subsection \<open>Input and output\<close>

record raw_token_record =
  uid :: string
  name :: "string option"
  symbol :: "string option"
  totalSupply :: int
  canMint :: bool
  canMelt :: bool
  config_str :: string
  tx_hashes :: "string list"
  tx_dates :: "datetime list"

record tx_entry =
  t_hash :: string
  t_date :: string

record factor =
  f_name :: string
  f_score :: int
  f_description :: string
  f_impact :: string

record history_point =
  h_date :: string
  h_score :: int

record trust_score_data =
  tsd_score :: int
  tsd_confidenceLevel :: int
  tsd_factors :: "factor list"
  tsd_history :: "history_point list"
  tsd_strengths :: "string option list"
  tsd_concerns :: "string option list"

record nft_data =
  nft_id :: string
  nft_name :: "string option"
  nft_symbol :: "string option"
  nft_totalSupply :: int
  nft_canMint :: bool
  nft_canMelt :: bool
  nft_configurationString :: string
  nft_blockchain :: string
  nft_verified :: bool
  nft_tokenId :: string
  nft_collection :: string
  nft_creator :: string
  nft_transactionsCount :: int
  nft_transactionHistory :: "tx_entry list"
  nft_trustScore :: int
  nft_trustScoreData :: trust_score_data
  nft_priceData :: "(string \<times> string) list"

record response =
  nftData :: nft_data

subsection \<open>The derivation, line by line\<close>

text \<open>Line 60: \<open>verified = not canMint and not canMelt\<close>.\<close>

definition verified :: "bool \<Rightarrow> bool \<Rightarrow> bool" where
  "verified cMint cMelt = (\<not> cMint \<and> \<not> cMelt)"

text \<open>Line 61: \<open>token_id = f"{uid[:8]}...{uid[-8:]}"\<close>.\<close>

definition token_id :: "string \<Rightarrow> string" where
  "token_id u = slice_to u 8 @ ''...'' @ slice_from u (- 8)"

text \<open>Line 62:
  \<open>collection = name.split("#")[0].strip() if name and '#' in name else name.strip()\<close>.
  The condition \<open>name and '#' in name\<close> is false for \<open>None\<close> and for the empty string; for
  \<open>None\<close> the other branch then calls \<open>strip\<close> on \<open>None\<close>, which raises.\<close>

definition collection :: "string option \<Rightarrow> py_error + string" where
  "collection nm =
     (case nm of
        None \<Rightarrow> Inl AttributeError
      | Some s \<Rightarrow>
          if s \<noteq> [] \<and> CHR ''#'' \<in> set s
          then (case split_chr CHR ''#'' s of
                  [] \<Rightarrow> Inl IndexError
                | p # ps \<Rightarrow> Inr (strip p))
          else Inr (strip s))"

text \<open>Lines 65 to 67: the hashes zipped with the dates, each date as \<open>%Y-%m-%d\<close>.\<close>

definition transactionHistory :: "string list \<Rightarrow> datetime list \<Rightarrow> tx_entry list" where
  "transactionHistory hs ds = map (\<lambda>(h, d). \<lparr>t_hash = h, t_date = strftime_Ymd d\<rparr>) (zip hs ds)"

text \<open>Lines 69 to 72: the earliest date, or one read of the clock when there is none.\<close>

definition first_tx_date :: "clock \<Rightarrow> datetime list \<Rightarrow> nat \<Rightarrow> datetime \<times> nat" where
  "first_tx_date clk ds k =
     (case ds of
        d # ds' \<Rightarrow> (py_min_from d ds', k)
      | [] \<Rightarrow> today clk k)"

text \<open>Line 74: two reads of the clock, the first for the year and the second for the month.\<close>

definition age_months :: "clock \<Rightarrow> datetime \<Rightarrow> nat \<Rightarrow> int \<times> nat" where
  "age_months clk first k =
     (let (ty, k1) = today clk k;
          (tm, k2) = today clk k1
      in (max 1 ((year ty - year first) * 12 + month tm - month first), k2))"

text \<open>Lines 75 to 78.\<close>

definition age_points :: "int \<Rightarrow> int" where
  "age_points am = min am 25"

definition tx_points :: "int \<Rightarrow> int" where
  "tx_points transactionsCount = min (2 * transactionsCount) 25"

definition immutability_points :: "bool \<Rightarrow> bool \<Rightarrow> bool \<Rightarrow> int" where
  "immutability_points vf cMint cMelt = (if vf then 25 else (if cMint \<noteq> cMelt then 12 else 0))"

definition score :: "int \<Rightarrow> int \<Rightarrow> int \<Rightarrow> int" where
  "score ap tp ip = min 100 (50 + ap + tp + ip)"

text \<open>Lines 83 to 87.\<close>

definition factors :: "int \<Rightarrow> int \<Rightarrow> int \<Rightarrow> factor list" where
  "factors ap tp ip =
     [\<lparr>f_name = ''Age'', f_score = ap,
        f_description = ''Age in months since first TX'', f_impact = ''Medium''\<rparr>,
      \<lparr>f_name = ''Transaction History'', f_score = tp,
        f_description = ''Number of transactions'', f_impact = ''High''\<rparr>,
      \<lparr>f_name = ''Immutability'', f_score = ip,
        f_description = ''Mint/melt disabled'', f_impact = ''High''\<rparr>]"

text \<open>Lines 88 to 91: one point for each \<open>i\<close> of \<open>range(age_months)\<close>; an exception raised
  while a point is built ends the comprehension.\<close>

fun history_items :: "datetime \<Rightarrow> int \<Rightarrow> int \<Rightarrow> int list \<Rightarrow> py_error + history_point list" where
  "history_items first tp ip [] = Inr []"
| "history_items first tp ip (i # is) =
     (case add_relativedelta first (relativedelta_months i) of
        Inl e \<Rightarrow> Inl e
      | Inr d \<Rightarrow>
          (case history_items first tp ip is of
             Inl e \<Rightarrow> Inl e
           | Inr ps \<Rightarrow>
               Inr (\<lparr>h_date = strftime_Ym d, h_score = min 100 (50 + min i 25 + tp + ip)\<rparr> # ps)))"

definition history :: "datetime \<Rightarrow> int \<Rightarrow> int \<Rightarrow> int \<Rightarrow> py_error + history_point list" where
  "history first am tp ip = history_items first tp ip (py_range am)"

text \<open>Line 92: the two optional labels, filtered by their truth value. Line 93: the one
  optional label, not filtered.\<close>

definition strengths :: "int \<Rightarrow> int \<Rightarrow> string option list" where
  "strengths ip tp =
     filter truthy
       [if ip = 25 then Some ''Strong immutability'' else None,
        if tp \<ge> 20 then Some ''Good transaction history'' else None]"

definition concerns :: "int \<Rightarrow> string option list" where
  "concerns ap = [if ap < 5 then Some ''Low age'' else None]"

text \<open>Lines 60 to 116 as a whole. The result is the response or the exception, with the
  number of clock reads made.\<close>

definition fetch_hathor_nft :: "clock \<Rightarrow> raw_token_record \<Rightarrow> nat \<Rightarrow> (py_error + response) \<times> nat" where
  "fetch_hathor_nft clk r k =
     (let vf = verified (canMint r) (canMelt r);
          tid = token_id (uid r)
      in case collection (name r) of
           Inl e \<Rightarrow> (Inl e, k)
         | Inr coll \<Rightarrow>
             (let creator = ''Unknown Creator'';
                  transactionsCount = int (length (tx_hashes r));
                  txh = transactionHistory (tx_hashes r) (tx_dates r);
                  (first, k1) = first_tx_date clk (tx_dates r) k;
                  (am, k2) = age_months clk first k1;
                  ap = age_points am;
                  tp = tx_points transactionsCount;
                  ip = immutability_points vf (canMint r) (canMelt r);
                  sc = score ap tp ip
              in case history first am tp ip of
                   Inl e \<Rightarrow> (Inl e, k2)
                 | Inr hist \<Rightarrow>
                     (Inr \<lparr>nftData =
                        \<lparr>nft_id = uid r,
                         nft_name = name r,
                         nft_symbol = symbol r,
                         nft_totalSupply = totalSupply r,
                         nft_canMint = canMint r,
                         nft_canMelt = canMelt r,
                         nft_configurationString = config_str r,
                         nft_blockchain = ''Hathor'',
                         nft_verified = vf,
                         nft_tokenId = tid,
                         nft_collection = coll,
                         nft_creator = creator,
                         nft_transactionsCount = transactionsCount,
                         nft_transactionHistory = txh,
                         nft_trustScore = sc,
                         nft_trustScoreData =
                           \<lparr>tsd_score = sc,
                            tsd_confidenceLevel = sc,
                            tsd_factors = factors ap tp ip,
                            tsd_history = hist,
                            tsd_strengths = strengths ip tp,
                            tsd_concerns = concerns ap\<rparr>,
                         nft_priceData = []\<rparr>\<rparr>, k2)))"

subsection \<open>The specification's wording of the trend\<close>

text \<open>The specification (4.5) labels point \<open>i\<close> of the trend with the calendar year and month
  of the first transaction date plus \<open>i\<close> months, formatted \<open>YYYY-MM\<close>, and gives it the value
  \<open>min(100, 50 + min(i, 25) + txScore + immutabilityScore)\<close>. These two definitions follow
  that wording: months are counted from year 0, and the sum is split again into year and
  month.\<close>

definition spec_year_month_plus :: "int \<Rightarrow> int \<Rightarrow> int \<Rightarrow> int \<times> int" where
  "spec_year_month_plus y m i =
     (let total = y * 12 + (m - 1) + i in (total div 12, total mod 12 + 1))"


text \<open>The same point with the year written as \<open>%Y\<close> writes it, without leading zeros. The
  two agree from year 1000 on.\<close>

definition unpadded_history_point :: "datetime \<Rightarrow> int \<Rightarrow> int \<Rightarrow> int \<Rightarrow> history_point" where
  "unpadded_history_point first tp ip i =
     (let (y, m) = spec_year_month_plus (year first) (month first) i
      in \<lparr>h_date = strftime_Y y @ ''-'' @ zpad 2 m, h_score = min 100 (50 + min i 25 + tp + ip)\<rparr>)"

subsection \<open>Reading a decimal label back\<close>

text \<open>The value of a string of decimal digits, used to check that \<open>zpad\<close> and \<open>decimal\<close>
  write the decimal form, with and without padding.\<close>

definition digits_value :: "string \<Rightarrow> int" where
  "digits_value s = foldl (\<lambda>a c. 10 * a + (int (of_char c) - 48)) 0 s"

subsection \<open>Sample inputs\<close>

text \<open>A reference instant, the identifier quoted in the source's usage example, a token
  without transactions, a token first seen seven calendar months before the reference
  instant, a token first seen in November 999 looked at in February 1000, and a clock that
  passes midnight of New Year between two reads.\<close>

definition example_today :: datetime where
  "example_today =
     \<lparr>year = 2024, month = 6, day = 15, hour = 10, minute = 30, second = 0, microsecond = 0\<rparr>"

definition example_uid :: string where
  "example_uid = ''0002b13f155bf5e391b003a610bc902848e9a58c758889f81e17a5c031fe5c76''"

definition example_record_new :: raw_token_record where
  "example_record_new =
     \<lparr>uid = example_uid, name = Some ''CryptoPunks #42'', symbol = Some ''CPK'',
      totalSupply = 1, canMint = False, canMelt = False, config_str = [],
      tx_hashes = [], tx_dates = []\<rparr>"

definition example_record_old :: raw_token_record where
  "example_record_old =
     \<lparr>uid = example_uid, name = Some ''CryptoPunks #42'', symbol = Some ''CPK'',
      totalSupply = 1, canMint = False, canMelt = False, config_str = [],
      tx_hashes =
        [''00000a7d4b1e6f3c9d2a8b5e7f1c4d6a9b3e5f7a1c2d4e6f8a0b1c3d5e7f9a1b'',
         ''0000f3e1d2c4b5a69788796a5b4c3d2e1f0a9b8c7d6e5f4a3b2c1d0e9f8a7b6c''],
      tx_dates =
        [\<lparr>year = 2024, month = 1, day = 20, hour = 0, minute = 0, second = 0, microsecond = 0\<rparr>,
         \<lparr>year = 2023, month = 11, day = 5, hour = 0, minute = 0, second = 0, microsecond = 0\<rparr>]\<rparr>"



definition example_ticking_clock :: clock where
  "example_ticking_clock k =
     (if k = 0
      then \<lparr>year = 2024, month = 12, day = 31, hour = 23, minute = 59, second = 59,
            microsecond = 999999\<rparr>
      else \<lparr>year = 2025, month = 1, day = 1, hour = 0, minute = 0, second = 0,
            microsecond = 0\<rparr>)"

section \<open>Supporting lemmas\<close>

subsection \<open>Calendar arithmetic\<close>

lemma monthrange_days_Inr:
  assumes "1 \<le> m" "m \<le> 12"
  shows "\<exists>n. monthrange_days y m = Inr n \<and> 28 \<le> n"
proof -
  from assms have "m \<in> {1, 2, 3, 4, 5, 6, 7, 8, 9, 10, 11, 12}" by simp arith
  then have "28 \<le> mdays ! nat (m - 1)"
    by (auto simp: mdays_def)
  with assms show ?thesis by (simp add: monthrange_days_def mdays_def)
qed

lemma relativedelta_months_nonneg:
  assumes "0 \<le> i"
  shows "rd_years (relativedelta_months i) = i div 12" "rd_months (relativedelta_months i) = i mod 12"
  using assms by (auto simp: relativedelta_months_def sign_def Let_def)

lemma divmod_block:
  fixes a b :: int
  assumes "0 \<le> b" "b < 12"
  shows "(a * 12 + b) div 12 = a" "(a * 12 + b) mod 12 = b"
  using assms by simp_all

lemma carry:
  fixes y m i :: int
  assumes "1 \<le> m" "m \<le> 12" "0 \<le> i"
  shows "spec_year_month_plus y m i =
     (if m + i mod 12 > 12 then (y + i div 12 + 1, m + i mod 12 - 12) else (y + i div 12, m + i mod 12))"
proof -
  define q r where "q = i div 12" and "r = i mod 12"
  define total where "total = y * 12 + (m - 1) + i"
  have i: "i = q * 12 + r" and r: "0 \<le> r" "r < 12"
    by (simp_all add: q_def r_def)
  have goal: "(total div 12, total mod 12 + 1) =
     (if m + r > 12 then (y + q + 1, m + r - 12) else (y + q, m + r))"
  proof (cases "m + r > 12")
    case True
    have "total = (y + q + 1) * 12 + (m + r - 13)"
      by (simp add: total_def i algebra_simps)
    moreover have "0 \<le> m + r - 13" "m + r - 13 < 12" using True assms r by auto
    ultimately have "total div 12 = y + q + 1" "total mod 12 = m + r - 13"
      using divmod_block[of "m + r - 13" "y + q + 1"] by simp_all
    with True show ?thesis by simp
  next
    case False
    have "total = (y + q) * 12 + (m + r - 1)"
      by (simp add: total_def i algebra_simps)
    moreover have "0 \<le> m + r - 1" "m + r - 1 < 12" using False assms r by auto
    ultimately have "total div 12 = y + q" "total mod 12 = m + r - 1"
      using divmod_block[of "m + r - 1" "y + q"] by simp_all
    with False show ?thesis by simp
  qed
  show ?thesis
    unfolding spec_year_month_plus_def Let_def
    using goal unfolding total_def q_def r_def .
qed

lemma add_relativedelta_months:
  assumes v: "valid_datetime d" and i: "0 \<le> i"
    and top: "fst (spec_year_month_plus (year d) (month d) i) \<le> 9999"
  shows "\<exists>d'. add_relativedelta d (relativedelta_months i) = Inr d' \<and>
           (year d', month d') = spec_year_month_plus (year d) (month d) i"
proof -
  obtain y m where ym: "spec_year_month_plus (year d) (month d) i = (y, m)"
    by (cases "spec_year_month_plus (year d) (month d) i")
  from v have md: "1 \<le> month d" "month d \<le> 12" and yd: "1 \<le> year d" and dd: "1 \<le> day d"
    by (auto simp: valid_datetime_def split: sum.splits)
  define q r where "q = rd_years (relativedelta_months i)" and "r = rd_months (relativedelta_months i)"
  have qr: "q = i div 12" "r = i mod 12"
    by (simp_all add: q_def r_def relativedelta_months_nonneg[OF i])
  have r: "0 \<le> r" "r < 12" "0 \<le> q"
    using i by (simp_all add: qr pos_imp_zdiv_nonneg_iff)
  have c: "(y, m) =
     (if month d + r > 12 then (year d + q + 1, month d + r - 12) else (year d + q, month d + r))"
    using carry[OF md i, of "year d"] ym by (simp add: qr)
  have m: "1 \<le> m" "m \<le> 12" and y: "1 \<le> y"
    using c md r yd by (auto split: if_splits)
  have y9: "y \<le> 9999" using top ym by simp
  obtain n where n: "monthrange_days y m = Inr n" "28 \<le> n"
    using monthrange_days_Inr[OF m] by blast
  have "add_relativedelta d (relativedelta_months i) = replace_ymd d y m (min n (day d))"
    using c md r n
    by (auto simp: add_relativedelta_def q_def[symmetric] r_def[symmetric] Let_def
             split: if_splits)
  also have "\<dots> = Inr (d\<lparr>year := y, month := m, day := min n (day d)\<rparr>)"
    using y y9 n dd by (simp add: replace_ymd_def)
  finally show ?thesis using ym by simp
qed

subsection \<open>The trend, the earliest date, strings\<close>

lemma history_items_map:
  assumes "\<And>i. i \<in> set js \<Longrightarrow> \<exists>d. add_relativedelta first (relativedelta_months i) = Inr d \<and>
             (year d, month d) = spec_year_month_plus (year first) (month first) i"
  shows "history_items first tp ip js = Inr (map (unpadded_history_point first tp ip) js)"
  using assms
proof (induction js)
  case Nil
  then show ?case by simp
next
  case (Cons j js)
  from Cons.prems[of j] obtain d where d: "add_relativedelta first (relativedelta_months j) = Inr d"
    "(year d, month d) = spec_year_month_plus (year first) (month first) j" by auto
  have "history_items first tp ip js = Inr (map (unpadded_history_point first tp ip) js)"
    using Cons.IH Cons.prems by simp
  with d(1) d(2)[symmetric] show ?case
    by (simp add: unpadded_history_point_def strftime_Ym_def)
qed

lemma age_bound:
  fixes fy fm ty tm i :: int
  assumes "1 \<le> fm" "fm \<le> 12" "1 \<le> tm" "tm \<le> 12" "fy \<le> 9999" "ty \<le> 9999" "0 \<le> i"
    and "i < max 1 ((ty - fy) * 12 + tm - fm)"
  shows "fst (spec_year_month_plus fy fm i) \<le> 9999"
proof -
  have "fy * 12 + (fm - 1) + i < 10000 * 12"
    using assms by (auto simp: max_def split: if_splits)
  then have "(fy * 12 + (fm - 1) + i) div 12 < 10000"
    by (simp add: div_less_iff_less_mult)
  then show ?thesis by (simp add: spec_year_month_plus_def Let_def)
qed

lemma py_min_from_mem: "py_min_from m ds \<in> set (m # ds)"
  by (induction ds arbitrary: m) (auto split: if_splits)

lemma py_min_from_le:
  "dt_key (py_min_from m ds) \<le> dt_key m \<and> (\<forall>d\<in>set ds. dt_key (py_min_from m ds) \<le> dt_key d)"
proof (induction ds arbitrary: m)
  case Nil
  then show ?case by simp
next
  case (Cons a ds)
  let ?m' = "if dt_lt a m then a else m"
  have le: "dt_key ?m' \<le> dt_key m" "dt_key ?m' \<le> dt_key a"
    by (auto simp: dt_lt_def)
  from Cons.IH[of ?m'] have ih: "dt_key (py_min_from ?m' ds) \<le> dt_key ?m'"
    "\<forall>d\<in>set ds. dt_key (py_min_from ?m' ds) \<le> dt_key d" by auto
  from ih(1) le have "dt_key (py_min_from ?m' ds) \<le> dt_key m" "dt_key (py_min_from ?m' ds) \<le> dt_key a"
    by (meson order_trans)+
  with ih(2) show ?case by simp
qed

lemma split_chr_head: "\<exists>ps. split_chr c s = takeWhile (\<lambda>x. x \<noteq> c) s # ps"
  by (induction s) (auto split: list.splits)

lemma collection_Some: "collection (Some s) = Inr (strip (takeWhile (\<lambda>x. x \<noteq> CHR ''#'') s))"
proof (cases "CHR ''#'' \<in> set s")
  case True
  then have "s \<noteq> []" by auto
  moreover obtain ps where "split_chr CHR ''#'' s = takeWhile (\<lambda>x. x \<noteq> CHR ''#'') s # ps"
    using split_chr_head by blast
  ultimately show ?thesis using True by (simp add: collection_def)
next
  case False
  then have tw: "takeWhile (\<lambda>x. x \<noteq> CHR ''#'') s = s"
    by (auto simp: takeWhile_eq_all_conv)
  show ?thesis unfolding tw using False by (simp add: collection_def)
qed

lemma collection_None: "collection None = Inl AttributeError"
  by (simp add: collection_def)

lemma strip_decomp:
  "\<exists>a b. s = a @ strip s @ b \<and> (\<forall>c\<in>set a. isspace c) \<and> (\<forall>c\<in>set b. isspace c)"
proof -
  let ?a = "takeWhile isspace s"
  let ?t = "dropWhile isspace s"
  let ?b = "rev (takeWhile isspace (rev ?t))"
  have "?t = strip s @ ?b"
    unfolding strip_def by (metis rev_append rev_rev_ident takeWhile_dropWhile_id)
  then have "s = ?a @ strip s @ ?b" by (metis takeWhile_dropWhile_id)
  moreover have "\<forall>c\<in>set ?a. isspace c" by (meson set_takeWhileD)
  moreover have "\<forall>c\<in>set ?b. isspace c" by (metis set_rev set_takeWhileD)
  ultimately show ?thesis by blast
qed

lemma last_dropWhile:
  assumes "dropWhile P xs \<noteq> []"
  shows "last (dropWhile P xs) = last xs"
proof -
  have "last xs = last (takeWhile P xs @ dropWhile P xs)" by simp
  also have "\<dots> = last (dropWhile P xs)" using assms by (rule last_appendR)
  finally show ?thesis by simp
qed

lemma strip_ends:
  assumes ne: "strip s \<noteq> []"
  shows "\<not> isspace (hd (strip s)) \<and> \<not> isspace (last (strip s))"
proof -
  define t where "t = dropWhile isspace s"
  define u where "u = dropWhile isspace (rev t)"
  have s: "strip s = rev u" by (simp add: strip_def t_def u_def)
  have u: "u \<noteq> []" using ne s by simp
  have t: "t \<noteq> []" using u by (auto simp: u_def)
  have "\<not> isspace (hd u)" using u unfolding u_def by (rule hd_dropWhile)
  then have l: "\<not> isspace (last (strip s))" using u by (simp add: s last_rev)
  have "last u = last (rev t)" using u unfolding u_def by (rule last_dropWhile)
  then have "hd (strip s) = hd t" using u t by (simp add: s hd_rev last_rev)
  moreover have "\<not> isspace (hd t)" using t unfolding t_def by (rule hd_dropWhile)
  ultimately show ?thesis using l by simp
qed

lemma token_id_eq: "token_id u = take 8 u @ ''...'' @ drop (length u - 8) u"
  by (simp add: token_id_def slice_to_def slice_from_def slice_bound_def Let_def min_def max_def nat_diff_distrib')

subsection \<open>The whole derivation\<close>

lemma first_tx_date_valid:
  assumes "\<forall>d\<in>set ds. valid_datetime d" "\<forall>j. valid_datetime (clk j)"
  shows "valid_datetime (fst (first_tx_date clk ds k))"
proof (cases ds)
  case Nil
  then show ?thesis using assms(2) by (simp add: first_tx_date_def today_def)
next
  case (Cons d ds')
  have "py_min_from d ds' \<in> set (d # ds')" by (rule py_min_from_mem)
  then show ?thesis using assms(1) Cons by (auto simp: first_tx_date_def)
qed

lemma age_months_eq:
  "age_months clk first k =
     (max 1 ((year (clk k) - year first) * 12 + month (clk (Suc k)) - month first), Suc (Suc k))"
  by (simp add: age_months_def today_def)

lemma trend_year_bound:
  assumes vf: "valid_datetime first" and vc: "\<forall>j. valid_datetime (clk j)"
    and i: "0 \<le> i" "i < fst (age_months clk first k)"
  shows "fst (spec_year_month_plus (year first) (month first) i) \<le> 9999"
proof -
  have i': "i < max 1 ((year (clk k) - year first) * 12 + month (clk (Suc k)) - month first)"
    using i(2) by (simp add: age_months_eq)
  from vf have f: "1 \<le> month first" "month first \<le> 12" "year first \<le> 9999"
    by (simp_all add: valid_datetime_def)
  from vc have "valid_datetime (clk k)" "valid_datetime (clk (Suc k))" by simp_all
  then have t: "year (clk k) \<le> 9999" "1 \<le> month (clk (Suc k))" "month (clk (Suc k)) \<le> 12"
    by (simp_all add: valid_datetime_def)
  show ?thesis using age_bound[OF f(1) f(2) t(2) t(3) f(3) t(1) i(1) i'] .
qed

lemma history_valid:
  assumes vf: "valid_datetime first" and vc: "\<forall>j. valid_datetime (clk j)"
  shows "history first (fst (age_months clk first k)) tp ip =
           Inr (map (unpadded_history_point first tp ip) (py_range (fst (age_months clk first k))))"
  unfolding history_def
proof (rule history_items_map)
  fix i assume "i \<in> set (py_range (fst (age_months clk first k)))"
  then have i: "0 \<le> i" "i < fst (age_months clk first k)"
    by (auto simp: py_range_def)
  have "fst (spec_year_month_plus (year first) (month first) i) \<le> 9999"
    using trend_year_bound[OF vf vc i] .
  then show "\<exists>d. add_relativedelta first (relativedelta_months i) = Inr d \<and>
             (year d, month d) = spec_year_month_plus (year first) (month first) i"
    using add_relativedelta_months[OF vf i(1)] by blast
qed

lemma fetch_hathor_nft_result:
  assumes nm: "name r = Some s"
    and vd: "\<forall>d\<in>set (tx_dates r). valid_datetime d"
    and vc: "\<forall>j. valid_datetime (clk j)"
    and first: "first_tx_date clk (tx_dates r) k = (first, k1)"
    and am: "age_months clk first k1 = (am, k2)"
  shows "fetch_hathor_nft clk r k =
     (Inr \<lparr>nftData =
        \<lparr>nft_id = uid r,
         nft_name = name r,
         nft_symbol = symbol r,
         nft_totalSupply = totalSupply r,
         nft_canMint = canMint r,
         nft_canMelt = canMelt r,
         nft_configurationString = config_str r,
         nft_blockchain = ''Hathor'',
         nft_verified = verified (canMint r) (canMelt r),
         nft_tokenId = token_id (uid r),
         nft_collection = strip (takeWhile (\<lambda>x. x \<noteq> CHR ''#'') s),
         nft_creator = ''Unknown Creator'',
         nft_transactionsCount = int (length (tx_hashes r)),
         nft_transactionHistory = transactionHistory (tx_hashes r) (tx_dates r),
         nft_trustScore =
           score (age_points am) (tx_points (int (length (tx_hashes r))))
             (immutability_points (verified (canMint r) (canMelt r)) (canMint r) (canMelt r)),
         nft_trustScoreData =
           \<lparr>tsd_score =
              score (age_points am) (tx_points (int (length (tx_hashes r))))
                (immutability_points (verified (canMint r) (canMelt r)) (canMint r) (canMelt r)),
            tsd_confidenceLevel =
              score (age_points am) (tx_points (int (length (tx_hashes r))))
                (immutability_points (verified (canMint r) (canMelt r)) (canMint r) (canMelt r)),
            tsd_factors =
              factors (age_points am) (tx_points (int (length (tx_hashes r))))
                (immutability_points (verified (canMint r) (canMelt r)) (canMint r) (canMelt r)),
            tsd_history =
              map (unpadded_history_point first (tx_points (int (length (tx_hashes r))))
                     (immutability_points (verified (canMint r) (canMelt r)) (canMint r) (canMelt r)))
                (py_range am),
            tsd_strengths =
              strengths
                (immutability_points (verified (canMint r) (canMelt r)) (canMint r) (canMelt r))
                (tx_points (int (length (tx_hashes r)))),
            tsd_concerns = concerns (age_points am)\<rparr>,
         nft_priceData = []\<rparr>\<rparr>, k2)"
proof -
  have vf: "valid_datetime first"
    using first_tx_date_valid[OF vd vc, of k] first by simp
  have h: "history first am (tx_points (int (length (tx_hashes r))))
             (immutability_points (verified (canMint r) (canMelt r)) (canMint r) (canMelt r)) =
           Inr (map (unpadded_history_point first (tx_points (int (length (tx_hashes r))))
                     (immutability_points (verified (canMint r) (canMelt r)) (canMint r) (canMelt r)))
                (py_range am))"
    using history_valid[OF vf vc, of k1] am by simp
  show ?thesis
    by (simp add: fetch_hathor_nft_def nm collection_Some first am h Let_def)
qed

subsection \<open>Labels and the decimal form\<close>



lemma zpad_length: "length (zpad w n) = w"
  by (induction w arbitrary: n) simp_all

lemma of_char_digit_char: "int (of_char (digit_char n)) = 48 + n mod 10"
proof -
  have "0 \<le> n mod 10" "n mod 10 < 10" by simp_all
  then have "n mod 10 \<in> {0, 1, 2, 3, 4, 5, 6, 7, 8, 9}" by simp arith
  then show ?thesis unfolding digit_char_def by auto
qed

lemma digits_value_snoc:
  "digits_value (xs @ [c]) = 10 * digits_value xs + (int (of_char c) - 48)"
  by (simp add: digits_value_def)

lemma digits_value_zpad:
  assumes "0 \<le> n" "n < 10 ^ w"
  shows "digits_value (zpad w n) = n"
  using assms
proof (induction w arbitrary: n)
  case 0
  then show ?case by (simp add: digits_value_def)
next
  case (Suc w)
  have "0 \<le> n div 10" using Suc.prems(1) by (simp add: pos_imp_zdiv_nonneg_iff)
  moreover have "n div 10 < 10 ^ w" using Suc.prems(2) by (simp add: div_less_iff_less_mult mult.commute)
  ultimately have "digits_value (zpad w (n div 10)) = n div 10" by (rule Suc.IH)
  then show ?case by (simp add: digits_value_snoc of_char_digit_char)
qed





lemma digits_value_decimal: "digits_value (decimal n) = int n"
proof (induction n rule: decimal.induct)
  case (1 n)
  show ?case
  proof (cases "n < 10")
    case True
    then show ?thesis
      by (simp add: decimal.simps[of n] digits_value_def of_char_digit_char)
  next
    case False
    with 1 have "digits_value (decimal (n div 10)) = int (n div 10)" by simp
    with False show ?thesis
      by (simp add: decimal.simps[of n] digits_value_snoc of_char_digit_char zdiv_int zmod_int)
  qed
qed


subsection \<open>Labels of the classifier\<close>

lemma strengths_eq:
  "strengths ip tp =
     (if ip = 25 then [Some ''Strong immutability''] else []) @
     (if tp \<ge> 20 then [Some ''Good transaction history''] else [])"
  by (simp add: strengths_def)

lemma strengths_no_placeholder:
  "None \<notin> set (strengths ip tp) \<and> Some [] \<notin> set (strengths ip tp)"
  by (simp add: strengths_eq)

lemma concerns_eq: "concerns ap = (if ap < 5 then [Some ''Low age''] else [None])"
  by (simp add: concerns_def)

lemma collection_example: "collection (Some ''CryptoPunks #42'') = Inr ''CryptoPunks''"
  by (simp add: collection_Some strip_def isspace_def)

subsection \<open>The clock\<close>

lemma fetch_fixed_clock_counter:
  "fst (fetch_hathor_nft (fixed_clock t) r k) = fst (fetch_hathor_nft (fixed_clock t) r 0)"
  by (cases "tx_dates r")
     (simp_all add: fetch_hathor_nft_def first_tx_date_def today_def age_months_eq fixed_clock_def
        Let_def split: sum.splits)

text \<open>The two reads of line 74 can fall on both sides of a change of year: the year then
  comes from the old instant and the month from the new one. A token first seen in
  November 2023 is given 2 months, where either instant alone would give 13 or 14.\<close>

lemma age_months_mixed_reads:
  "age_months example_ticking_clock
     \<lparr>year = 2023, month = 11, day = 5, hour = 0, minute = 0, second = 0, microsecond = 0\<rparr> 0 =
     (2, 2)"
  by (simp add: age_months_eq example_ticking_clock_def)

subsection \<open>The sample inputs\<close>

lemma example_today_valid: "valid_datetime example_today"
  by (simp add: example_today_def valid_datetime_def monthrange_days_def mdays_def)

lemma example_old_dates_valid: "\<forall>d\<in>set (tx_dates example_record_old). valid_datetime d"
  by (simp add: example_record_old_def valid_datetime_def monthrange_days_def mdays_def)

lemma example_old_first:
  "first_tx_date (fixed_clock example_today) (tx_dates example_record_old) k =
     (\<lparr>year = 2023, month = 11, day = 5, hour = 0, minute = 0, second = 0, microsecond = 0\<rparr>, k)"
  by (simp add: first_tx_date_def example_record_old_def dt_lt_def dt_key_def)

lemma example_old_age:
  "age_months (fixed_clock example_today)
     \<lparr>year = 2023, month = 11, day = 5, hour = 0, minute = 0, second = 0, microsecond = 0\<rparr> k =
     (7, Suc (Suc k))"
  by (simp add: age_months_eq fixed_clock_def example_today_def)

lemma example_new_first:
  "first_tx_date (fixed_clock example_today) (tx_dates example_record_new) k =
     (example_today, Suc k)"
  by (simp add: first_tx_date_def example_record_new_def today_def fixed_clock_def)

lemma example_new_age:
  "age_months (fixed_clock example_today) example_today k = (1, Suc (Suc k))"
  by (simp add: age_months_eq fixed_clock_def)

lemma example_old_fields:
  "name example_record_old = Some ''CryptoPunks #42''"
  "int (length (tx_hashes example_record_old)) = 2"
  "canMint example_record_old = False"
  "canMelt example_record_old = False"
  by (simp_all add: example_record_old_def)

lemma example_new_fields:
  "name example_record_new = Some ''CryptoPunks #42''"
  "canMint example_record_new = False"
  "canMelt example_record_new = False"
  "tx_hashes example_record_new = []"
  "tx_dates example_record_new = []"
  by (simp_all add: example_record_new_def)






lemma fixed_clock_valid: "valid_datetime t \<Longrightarrow> \<forall>j. valid_datetime (fixed_clock t j)"
  by (simp add: fixed_clock_def)

section \<open>Properties\<close>

text \<open>C1. Whenever a report is returned, its score is
  \<open>min(100, 50 + ageScore + txScore + immutabilityScore)\<close>, where the three summands are the
  scores of the three factors of the report, and it lies between 50 and 100. A record
  either has no name, and then the call raises before any score exists, or it yields such a
  report.\<close>

theorem score_formula_and_bounds:
  assumes vd: "\<forall>d\<in>set (tx_dates r). valid_datetime d"
    and vc: "\<forall>j. valid_datetime (clk j)"
  shows "(name r = None \<and> fetch_hathor_nft clk r k = (Inl AttributeError, k)) \<or>
     (\<exists>res k' first k1 am.
        fetch_hathor_nft clk r k = (Inr res, k') \<and>
        first_tx_date clk (tx_dates r) k = (first, k1) \<and>
        age_months clk first k1 = (am, k') \<and>
        (let ageScore = age_points am;
             txScore = tx_points (int (length (tx_hashes r)));
             immutabilityScore =
               immutability_points (verified (canMint r) (canMelt r)) (canMint r) (canMelt r);
             sc = nft_trustScore (nftData res)
         in map f_score (tsd_factors (nft_trustScoreData (nftData res))) =
              [ageScore, txScore, immutabilityScore] \<and>
            sc = min 100 (50 + ageScore + txScore + immutabilityScore) \<and>
            tsd_score (nft_trustScoreData (nftData res)) = sc \<and>
            50 \<le> sc \<and> sc \<le> 100))"
proof (cases "name r")
  case None
  then show ?thesis by (simp add: fetch_hathor_nft_def collection_None)
next
  case (Some s)
  obtain first k1 where f: "first_tx_date clk (tx_dates r) k = (first, k1)"
    by (cases "first_tx_date clk (tx_dates r) k")
  obtain am k2 where a: "age_months clk first k1 = (am, k2)"
    by (cases "age_months clk first k1")
  have am1: "1 \<le> am" using a by (auto simp: age_months_eq)
  have ap: "0 \<le> age_points am" using am1 by (simp add: age_points_def)
  have tp: "0 \<le> tx_points (int (length (tx_hashes r)))" by (simp add: tx_points_def)
  have ip: "0 \<le> immutability_points (verified (canMint r) (canMelt r)) (canMint r) (canMelt r)"
    by (simp add: immutability_points_def)
  show ?thesis
    using fetch_hathor_nft_result[OF Some vd vc f a] f a ap tp ip
    by (simp add: Let_def score_def factors_def)
qed

theorem score_formula_and_bounds_witness:
  "name example_record_old = Some ''CryptoPunks #42'' \<and>
   (\<exists>res. fetch_hathor_nft (fixed_clock example_today) example_record_old 0 = (Inr res, 2) \<and>
      map f_score (tsd_factors (nft_trustScoreData (nftData res))) = [7, 4, 25] \<and>
      nft_trustScore (nftData res) = 86)"
proof -
  show ?thesis
    using score_formula_and_bounds[OF example_old_dates_valid
        fixed_clock_valid[OF example_today_valid], of 0]
    by (auto simp: example_old_first example_old_age example_old_fields Let_def age_points_def
          tx_points_def immutability_points_def verified_def)
qed

text \<open>C2. For a record without a name the claim expects a report whose collection is absent
  and no exception. The code raises instead: line 62 calls \<open>strip\<close> on \<open>None\<close>. (For a name
  that is present the collection is the stripped text before the first \<open>#\<close>, or the
  stripped name when it has none: lemma \<open>collection_Some\<close>.)\<close>

theorem absent_name_raises:
  "fetch_hathor_nft clk (r\<lparr>name := None\<rparr>) k = (Inl AttributeError, k)"
  by (simp add: fetch_hathor_nft_def collection_None)

text \<open>C3. The claim expects that neither list holds a placeholder. The list of strengths
  does not (lemma \<open>strengths_no_placeholder\<close>), but the list of concerns is not filtered: for
  the sample token, seven months old, it is the one-element list holding \<open>None\<close>.\<close>

theorem concerns_keeps_placeholder:
  "\<not> isl (fst (fetch_hathor_nft (fixed_clock example_today) example_record_old 0)) \<and>
   tsd_concerns (nft_trustScoreData (nftData (projr (fst
     (fetch_hathor_nft (fixed_clock example_today) example_record_old 0))))) = [None] \<and>
   tsd_strengths (nft_trustScoreData (nftData (projr (fst
     (fetch_hathor_nft (fixed_clock example_today) example_record_old 0))))) =
     [Some ''Strong immutability'']"
  using fetch_hathor_nft_result[OF example_old_fields(1) example_old_dates_valid
      fixed_clock_valid[OF example_today_valid] example_old_first[of 0] example_old_age[of 0]]
  by (simp add: example_old_fields concerns_eq strengths_eq age_points_def tx_points_def
        immutability_points_def verified_def)

text \<open>C4. For every pair of flags, \<open>verified\<close> holds exactly when both are false, and the
  immutability points are 25 exactly when verified, 12 exactly when the flags differ and 0
  exactly when both are set.\<close>

theorem immutability_points_cases:
  "verified cMint cMelt = (cMint = False \<and> cMelt = False) \<and>
   (immutability_points (verified cMint cMelt) cMint cMelt = 25) = verified cMint cMelt \<and>
   (immutability_points (verified cMint cMelt) cMint cMelt = 12) = (cMint \<noteq> cMelt) \<and>
   (immutability_points (verified cMint cMelt) cMint cMelt = 0) = (cMint \<and> cMelt)"
  by (cases cMint; cases cMelt) (simp_all add: verified_def immutability_points_def)

text \<open>C5. For a transaction count \<open>n\<close> the transaction points are \<open>min(2 n, 25)\<close>; they
  do not decrease when \<open>n\<close> grows, they are 25 from 13 transactions on, and below 13 they
  are \<open>2 n\<close>, less than 25.\<close>

theorem tx_points_saturating:
  "tx_points (int n) = min (2 * int n) 25 \<and>
   (n \<le> m \<longrightarrow> tx_points (int n) \<le> tx_points (int m)) \<and>
   (13 \<le> n \<longrightarrow> tx_points (int n) = 25) \<and>
   (n < 13 \<longrightarrow> tx_points (int n) = 2 * int n \<and> tx_points (int n) < 25)"
  by (auto simp: tx_points_def)

theorem tx_points_saturating_witness:
  "tx_points (int 12) = 24 \<and> tx_points (int 13) = 25 \<and> tx_points (int 14) = 25 \<and>
   tx_points (int 12) \<le> tx_points (int 13) \<and> (12::nat) < 13 \<and> (13::nat) \<le> 14"
  using tx_points_saturating[of 12 13] tx_points_saturating[of 13 14]
    tx_points_saturating[of 14 14]
  by simp

text \<open>C6. With the instant held fixed at \<open>t\<close>: the first transaction date is \<open>t\<close> when there
  are no dates, and otherwise a date of the list that none of the list precedes; the age in
  months is \<open>max(1, (t.year - first.year) * 12 + t.month - first.month)\<close>, at least 1; and the
  age points are \<open>min(ageMonths, 25)\<close>.\<close>

theorem first_date_and_age:
  assumes f: "first_tx_date (fixed_clock t) ds k = (first, k1)"
    and a: "age_months (fixed_clock t) first k1 = (am, k2)"
  shows "(ds = [] \<longrightarrow> first = t) \<and>
         (ds \<noteq> [] \<longrightarrow> first \<in> set ds \<and> (\<forall>d\<in>set ds. \<not> dt_lt d first)) \<and>
         am = max 1 ((year t - year first) * 12 + month t - month first) \<and>
         1 \<le> am \<and>
         age_points am = min am 25"
proof -
  have "first = t" if "ds = []"
    using f that by (simp add: first_tx_date_def today_def fixed_clock_def)
  moreover have "first \<in> set ds \<and> (\<forall>d\<in>set ds. \<not> dt_lt d first)" if "ds \<noteq> []"
  proof -
    from that obtain d ds' where ds: "ds = d # ds'" by (cases ds) auto
    then have first: "first = py_min_from d ds'" using f by (simp add: first_tx_date_def)
    have "first \<in> set ds" unfolding first ds by (rule py_min_from_mem)
    moreover have "\<forall>x\<in>set ds. dt_key first \<le> dt_key x"
      unfolding first ds using py_min_from_le[of d ds'] by simp
    ultimately show ?thesis by (auto simp: dt_lt_def)
  qed
  moreover have "am = max 1 ((year t - year first) * 12 + month t - month first)"
    using a by (simp add: age_months_eq fixed_clock_def)
  ultimately show ?thesis by (simp add: age_points_def)
qed

theorem first_date_and_age_witness:
  "first_tx_date (fixed_clock example_today) (tx_dates example_record_old) 0 =
     (\<lparr>year = 2023, month = 11, day = 5, hour = 0, minute = 0, second = 0, microsecond = 0\<rparr>, 0) \<and>
   age_months (fixed_clock example_today)
     \<lparr>year = 2023, month = 11, day = 5, hour = 0, minute = 0, second = 0, microsecond = 0\<rparr> 0 =
     (7, 2) \<and>
   tx_dates example_record_old \<noteq> [] \<and>
   \<lparr>year = 2023, month = 11, day = 5, hour = 0, minute = 0, second = 0, microsecond = 0\<rparr>
     \<in> set (tx_dates example_record_old) \<and>
   (7::int) = max 1 ((2024 - 2023) * 12 + 6 - 11) \<and>
   age_points 7 = 7"
proof -
  have a: "age_months (fixed_clock example_today)
     \<lparr>year = 2023, month = 11, day = 5, hour = 0, minute = 0, second = 0, microsecond = 0\<rparr> 0 =
     (7, 2)"
    using example_old_age[of 0] by simp
  have ne: "tx_dates example_record_old \<noteq> []" by (simp add: example_record_old_def)
  show ?thesis
    using first_date_and_age[OF example_old_first[of 0] a] example_old_first[of 0] a ne
    by simp
qed




text \<open>C8. The claim expects the score 75 for a named token with minting and melting
  disabled, no transactions and the first transaction date equal to today. The code gives
  \<open>50 + 1 + 0 + 25 = 76\<close>; the other three expectations hold.\<close>

theorem fresh_token_scenario_counterexample:
  "\<not> isl (fst (fetch_hathor_nft (fixed_clock example_today) example_record_new 0)) \<and>
   nft_trustScore (nftData (projr (fst
     (fetch_hathor_nft (fixed_clock example_today) example_record_new 0)))) = 76 \<and>
   nft_trustScore (nftData (projr (fst
     (fetch_hathor_nft (fixed_clock example_today) example_record_new 0)))) \<noteq> 75"
proof -
  have vd: "\<forall>d\<in>set (tx_dates example_record_new). valid_datetime d"
    by (simp add: example_record_new_def)
  show ?thesis
    using fetch_hathor_nft_result[OF example_new_fields(1) vd
        fixed_clock_valid[OF example_today_valid] example_new_first[of 0]
        example_new_age[of "Suc 0"]]
    by (simp add: example_new_fields score_def age_points_def tx_points_def
          immutability_points_def verified_def)
qed

text \<open>C8, as amended. For a named token with minting and melting disabled and no
  transactions, and the instant held fixed at \<open>t\<close>, the first transaction date is \<open>t\<close>, the
  age is 1 month, and the report has score 76, is verified, and lists the strength
  "Strong immutability" and the concern "Low age".\<close>

theorem fresh_token_scenario:
  assumes nm: "name r = Some s"
    and flags: "canMint r = False" "canMelt r = False"
    and tx: "tx_hashes r = []" "tx_dates r = []"
    and vt: "valid_datetime t"
  shows "\<exists>res k'. fetch_hathor_nft (fixed_clock t) r k = (Inr res, k') \<and>
     fst (first_tx_date (fixed_clock t) (tx_dates r) k) = t \<and>
     fst (age_months (fixed_clock t) t k) = 1 \<and>
     nft_trustScore (nftData res) = 76 \<and>
     nft_verified (nftData res) = True \<and>
     tsd_strengths (nft_trustScoreData (nftData res)) = [Some ''Strong immutability''] \<and>
     tsd_concerns (nft_trustScoreData (nftData res)) = [Some ''Low age'']"
proof -
  have vd: "\<forall>d\<in>set (tx_dates r). valid_datetime d" using tx by simp
  have f: "first_tx_date (fixed_clock t) (tx_dates r) k = (t, Suc k)"
    using tx by (simp add: first_tx_date_def today_def fixed_clock_def)
  have a: "age_months (fixed_clock t) t k' = (1, Suc (Suc k'))" for k'
    by (simp add: age_months_eq fixed_clock_def)
  show ?thesis
    using fetch_hathor_nft_result[OF nm vd fixed_clock_valid[OF vt] f a[of "Suc k"]] f a[of k]
    by (simp add: flags tx score_def age_points_def tx_points_def immutability_points_def
          verified_def concerns_eq strengths_eq)
qed

theorem fresh_token_scenario_witness:
  "name example_record_new = Some ''CryptoPunks #42'' \<and>
   canMint example_record_new = False \<and> canMelt example_record_new = False \<and>
   tx_hashes example_record_new = [] \<and> tx_dates example_record_new = [] \<and>
   valid_datetime example_today \<and>
   (\<exists>res k'. fetch_hathor_nft (fixed_clock example_today) example_record_new 0 = (Inr res, k') \<and>
      nft_trustScore (nftData res) = 76 \<and>
      nft_verified (nftData res) = True \<and>
      tsd_strengths (nft_trustScoreData (nftData res)) = [Some ''Strong immutability''] \<and>
      tsd_concerns (nft_trustScoreData (nftData res)) = [Some ''Low age''])"
  using fresh_token_scenario[OF example_new_fields example_today_valid, of 0]
    example_new_fields example_today_valid
  by auto

text \<open>C9. Two invocations on the same record, each reading a clock that returns the same
  instant at every read, give the same outcome (the same report, or the same exception),
  whatever the number of reads made before each.\<close>

theorem fixed_instant_deterministic:
  assumes "\<forall>j. clk1 j = t" "\<forall>j. clk2 j = t"
  shows "fst (fetch_hathor_nft clk1 r k1) = fst (fetch_hathor_nft clk2 r k2)"
proof -
  have "clk1 = fixed_clock t" "clk2 = fixed_clock t"
    using assms by (auto simp: fixed_clock_def)
  then show ?thesis
    using fetch_fixed_clock_counter[of t r k1] fetch_fixed_clock_counter[of t r k2] by simp
qed

theorem fixed_instant_deterministic_witness:
  "fst (fetch_hathor_nft (fixed_clock example_today) example_record_old 0) =
   fst (fetch_hathor_nft (fixed_clock example_today) example_record_old 2)"
proof -
  have h: "\<forall>j. fixed_clock example_today j = example_today" by (simp add: fixed_clock_def)
  show ?thesis by (rule fixed_instant_deterministic[OF h h])
qed

text \<open>C10. For an identifier of any length the short identifier is its first 8
  characters, three dots and its last 8 characters; \<open>take\<close> returns the whole identifier
  when it has fewer than 8 characters, so the two parts overlap or repeat for a short one.
  The computation has no failing case.\<close>

theorem token_id_shape:
  "token_id u = take 8 u @ ''...'' @ rev (take 8 (rev u))"
  by (simp add: token_id_eq rev_take)

end
